theory Spec2Isabelle
  imports Complex_Main "HOL-Library.Stream"
begin

section \<open>Numbers, the random source and the image provider\<close>

text \<open>
  JavaScript numbers are modelled exactly: quantities that the program only ever computes
  from integers (grid cells, pixel rows, speeds, counters, clock readings in milliseconds)
  are \<open>int\<close>, the enemy's horizontal position and the time delta are \<open>real\<close>.
  Rounding of IEEE doubles is not modelled.

  \<open>Math.random()\<close> is a read from a stream of draws; each call consumes one draw. The
  draws are external input, every draw \<open>r\<close> of a real run satisfies \<open>0 \<le> r < 1\<close>.

  \<open>Resources.get(sprite).width\<close> is the image provider, which is not part of the
  sources; it is the parameter \<open>res\<close>, a function from the image path to its width.
\<close>

type_synonym resources = "string \<Rightarrow> int"

definition Math_random :: "real stream \<Rightarrow> real \<times> real stream" where
  "Math_random g = (shd g, stl g)"

definition valid_rng :: "real stream \<Rightarrow> bool" where
  "valid_rng g \<longleftrightarrow> (\<forall>r\<in>sset g. 0 \<le> r \<and> r < 1)"

section \<open>app.js: measurements and game settings\<close>

definition PLAYER_WIDTH_OFFSET :: int where "PLAYER_WIDTH_OFFSET = 23"
definition VISIBLE_ROW_HEIGHT :: int where "VISIBLE_ROW_HEIGHT = 83"
definition ROW_HEIGHT_OFFSET :: int where "ROW_HEIGHT_OFFSET = 25"

definition gsCollisionLimit :: int where "gsCollisionLimit = 3"
definition gsEnemySpeedAdjustor :: int where "gsEnemySpeedAdjustor = 0"
definition gsEnemyCount :: nat where "gsEnemyCount = 3"
definition gsBoardColumns :: int where "gsBoardColumns = 5"

section \<open>app.js: the enemy class\<close>

text \<open>
  An enemy has the fields \<open>x\<close>, \<open>y\<close> and \<open>speed\<close>; its \<open>sprite\<close> field is assigned
  once in the constructor and never again, so it is a constant here.
\<close>

record Enemy =
  ex :: real
  ey :: int
  speed :: int

definition enemy_sprite :: string where "enemy_sprite = ''images/enemy-bug.png''"

definition Enemy_setSpeed :: "real stream \<Rightarrow> int \<times> real stream" where
  "Enemy_setSpeed g =
     (let maxSpeed = (400::int); minSpeed = (100::int);
          (r, g') = Math_random g
      in (\<lfloor>r * real_of_int (maxSpeed - minSpeed)\<rfloor> + minSpeed + gsEnemySpeedAdjustor, g'))"

definition Enemy_setRow :: "real stream \<Rightarrow> int \<times> real stream" where
  "Enemy_setRow g =
     (let maxRow = (4::int); minRow = (1::int);
          (r, g') = Math_random g
      in ((\<lfloor>r * real_of_int (maxRow - minRow)\<rfloor> + minRow) * VISIBLE_ROW_HEIGHT
            - ROW_HEIGHT_OFFSET, g'))"

definition Enemy_spawn :: "Enemy \<Rightarrow> real stream \<Rightarrow> Enemy \<times> real stream" where
  "Enemy_spawn e g =
     (let (v, g1) = Enemy_setSpeed g;
          (y, g2) = Enemy_setRow g1
      in (e\<lparr>speed := v, ey := y, ex := 0\<rparr>, g2))"

definition Enemy_update :: "resources \<Rightarrow> real \<Rightarrow> Enemy \<Rightarrow> real stream \<Rightarrow> Enemy \<times> real stream" where
  "Enemy_update res dt e g =
     (let e1 = e\<lparr>ex := ex e + real_of_int (speed e) * dt\<rparr>
      in if ex e1 > real_of_int (res enemy_sprite * gsBoardColumns)
         then Enemy_spawn e1 g
         else (e1, g))"

section \<open>app.js: the player class\<close>

record Player =
  col :: int
  row :: int
  px :: int
  py :: int
  collisionCount :: int

definition player_sprite :: string where "player_sprite = ''images/char-boy.png''"

definition Player_goToHome :: "Player \<Rightarrow> Player" where
  "Player_goToHome p = p\<lparr>col := 2, row := 5\<rparr>"

definition Player_crash :: "Player \<Rightarrow> Player" where
  "Player_crash p = (let p1 = Player_goToHome p in p1\<lparr>collisionCount := collisionCount p1 + 1\<rparr>)"

definition Player_update :: "resources \<Rightarrow> Player \<Rightarrow> Player" where
  "Player_update res p =
     p\<lparr>px := col p * res player_sprite,
       py := row p * VISIBLE_ROW_HEIGHT - ROW_HEIGHT_OFFSET\<rparr>"

text \<open>
  \<open>handleInput\<close> receives what the key table holds for the key code: one of the four
  direction strings, or \<open>undefined\<close> (here \<open>None\<close>). The eight \<open>if\<close> statements run one
  after the other, each on the result of the one before.
\<close>

definition Player_handleInput :: "string option \<Rightarrow> Player \<Rightarrow> Player" where
  "Player_handleInput keyMove p0 =
     (let minCol = (0::int); maxCol = gsBoardColumns - 1;
          minRow = (0::int); maxRow = (5::int);
          p1 = (if keyMove = Some ''left'' then p0\<lparr>col := col p0 - 1\<rparr> else p0);
          p2 = (if keyMove = Some ''up'' then p1\<lparr>row := row p1 - 1\<rparr> else p1);
          p3 = (if keyMove = Some ''right'' then p2\<lparr>col := col p2 + 1\<rparr> else p2);
          p4 = (if keyMove = Some ''down'' then p3\<lparr>row := row p3 + 1\<rparr> else p3);
          p5 = (if col p4 > maxCol then p4\<lparr>col := maxCol\<rparr> else p4);
          p6 = (if col p5 < minCol then p5\<lparr>col := minCol\<rparr> else p5);
          p7 = (if row p6 < minRow then p6\<lparr>row := minRow\<rparr> else p6);
          p8 = (if row p7 > maxRow then p7\<lparr>row := maxRow\<rparr> else p7)
      in p8)"

section \<open>app.js: collision of one enemy with the player\<close>

text \<open>
  \<open>Enemy.prototype.collided\<close> reads and, through \<open>player.crash()\<close>, writes the global
  player, so it takes the player and returns it with its boolean result. Both edges of
  the player are computed from the width of the enemy's sprite, as in the source.
\<close>

definition Enemy_collided :: "resources \<Rightarrow> Enemy \<Rightarrow> Player \<Rightarrow> bool \<times> Player" where
  "Enemy_collided res e p =
     (if ey e = py p then
        (let pLeft = px p + PLAYER_WIDTH_OFFSET;
             pRight = pLeft + (res enemy_sprite - PLAYER_WIDTH_OFFSET);
             eLeft = ex e;
             eRight = eLeft + real_of_int (res enemy_sprite)
         in if eRight \<ge> real_of_int pLeft \<and> real_of_int pRight \<ge> eLeft
            then (True, Player_crash p)
            else (False, p))
      else (False, p))"

text \<open>
  The condition under which \<open>collided\<close> crashes the player, as a predicate of its own:
  the enemy is on the player's pixel row and the two visible intervals touch or overlap.
\<close>

definition overlaps :: "resources \<Rightarrow> Enemy \<Rightarrow> Player \<Rightarrow> bool" where
  "overlaps res e p =
     (ey e = py p \<and>
      ex e + real_of_int (res enemy_sprite) \<ge> real_of_int (px p + PLAYER_WIDTH_OFFSET) \<and>
      real_of_int (px p + PLAYER_WIDTH_OFFSET + (res enemy_sprite - PLAYER_WIDTH_OFFSET)) \<ge> ex e)"

section \<open>app.js: the key table\<close>

definition allowedKeys :: "nat \<Rightarrow> string option" where
  "allowedKeys keyCode =
     (if keyCode = 37 then Some ''left''
      else if keyCode = 38 then Some ''up''
      else if keyCode = 39 then Some ''right''
      else if keyCode = 40 then Some ''down''
      else None)"

section \<open>The canvas, the window and the engine's variables\<close>

text \<open>
  The 2D context is modelled by the list of the operations performed on it, oldest first;
  an image is named by its path.
\<close>

datatype draw_op =
    DrawImage string real real
  | ClearRect real real real real
  | FillRect real real real real
  | StrokeRect real real real real
  | FillText string real real
  | SetFont string
  | SetTextAlign string
  | SetFillStyle string
  | SetStrokeStyle string

text \<open>
  \<open>requestId\<close> holds \<open>0\<close> (its initial value, and the value \<open>initGameSettings\<close>
  gives it), a handle returned by \<open>requestAnimationFrame\<close>, or \<open>undefined\<close>.
\<close>

datatype request_id = Undefined | Num nat

fun truthy :: "request_id \<Rightarrow> bool" where
  "truthy Undefined = False"
| "truthy (Num n) = (n \<noteq> 0)"

datatype button = buttonStart | buttonReset | buttonStop

text \<open>
  The state: the globals of app.js (\<open>allEnemies\<close>, \<open>player\<close>), the variables of the
  engine's closure (\<open>requestId\<close>, \<open>lastTime\<close>, the context), the \<open>disabled\<close> property
  of the three buttons, and the host: the random source, the clock (one reading per call
  of \<open>Date.now()\<close>), the last animation-frame handle the window issued and the handles
  whose callback is still scheduled. The engine's \<open>lastCollisionCount\<close> is never read
  or written after its declaration and is left out.
\<close>

record game =
  allEnemies :: "Enemy list"
  player :: Player
  requestId :: request_id
  lastTime :: int
  ctx :: "draw_op list"
  disabled :: "button \<Rightarrow> bool"
  rng :: "real stream"
  clock :: "int stream"
  raf_last :: nat
  raf_pending :: "nat set"

definition canvas_width :: int where "canvas_width = 505"
definition canvas_height :: int where "canvas_height = 606"

definition Date_now :: "int stream \<Rightarrow> int \<times> int stream" where
  "Date_now c = (shd c, stl c)"

text \<open>
  The window's frame scheduler: \<open>requestAnimationFrame\<close> issues the next handle, a
  positive integer, and schedules the callback; \<open>cancelAnimationFrame\<close> unschedules the
  callback of the handle it is given, if there is one.
\<close>

definition requestAnimationFrame :: "game \<Rightarrow> nat \<times> game" where
  "requestAnimationFrame s =
     (let h = raf_last s + 1
      in (h, s\<lparr>raf_last := h, raf_pending := insert h (raf_pending s)\<rparr>))"

fun cancelAnimationFrame :: "request_id \<Rightarrow> game \<Rightarrow> game" where
  "cancelAnimationFrame Undefined s = s"
| "cancelAnimationFrame (Num h) s = s\<lparr>raf_pending := raf_pending s - {h}\<rparr>"

text \<open>The two array iterations of the source, over a state that the callback threads.\<close>

fun forEach :: "('a \<Rightarrow> 's \<Rightarrow> 'a \<times> 's) \<Rightarrow> 'a list \<Rightarrow> 's \<Rightarrow> 'a list \<times> 's" where
  "forEach f [] s = ([], s)"
| "forEach f (a # as) s =
     (let (a', s1) = f a s;
          (as', s2) = forEach f as s1
      in (a' # as', s2))"

fun array_some :: "('a \<Rightarrow> 's \<Rightarrow> bool \<times> 's) \<Rightarrow> 'a list \<Rightarrow> 's \<Rightarrow> bool \<times> 's" where
  "array_some f [] s = (False, s)"
| "array_some f (a # as) s =
     (let (b, s1) = f a s
      in if b then (True, s1) else array_some f as s1)"

text \<open>A number printed by string concatenation: decimal digits, with a sign if negative.\<close>

fun digits :: "nat \<Rightarrow> string" where
  "digits n =
     (if n < 10 then [''0123456789'' ! n]
      else digits (n div 10) @ [''0123456789'' ! (n mod 10)])"

declare digits.simps [simp del]

definition Number_toString :: "int \<Rightarrow> string" where
  "Number_toString i = (if i < 0 then CHR ''-'' # digits (nat (- i)) else digits (nat i))"

section \<open>The engine: rendering\<close>

definition Enemy_render :: "Enemy \<Rightarrow> draw_op" where
  "Enemy_render e = DrawImage enemy_sprite (ex e) (real_of_int (ey e))"

definition Player_render :: "Player \<Rightarrow> draw_op" where
  "Player_render p = DrawImage player_sprite (real_of_int (px p)) (real_of_int (py p))"

definition setButtonDisabled :: "button \<Rightarrow> bool \<Rightarrow> game \<Rightarrow> game" where
  "setButtonDisabled btn disabledState s = s\<lparr>disabled := (disabled s)(btn := disabledState)\<rparr>"

definition renderScore :: "game \<Rightarrow> game" where
  "renderScore s =
     (let txt = ''Lives remaining: ''
                  @ Number_toString (gsCollisionLimit - collisionCount (player s));
          s1 = s\<lparr>ctx := ctx s @
                 [ClearRect 0 0 (real_of_int canvas_width) 50,
                  SetFont ''Bold 12pt tahoma'',
                  SetTextAlign ''right'',
                  SetFillStyle ''#000'']\<rparr>
      in if truthy (requestId s1)
         then s1\<lparr>ctx := ctx s1 @ [FillText txt (real_of_int (canvas_width - 30)) 35]\<rparr>
         else s1)"

definition rowImages :: "string list" where
  "rowImages =
     [''images/water-block.png'',
      ''images/stone-block.png'',
      ''images/stone-block.png'',
      ''images/stone-block.png'',
      ''images/grass-block.png'',
      ''images/grass-block.png'']"

text \<open>The nested loop of \<open>renderBoard\<close>: one tile per row and column, row by row.\<close>

definition boardTiles :: "resources \<Rightarrow> draw_op list" where
  "boardTiles res =
     concat (map (\<lambda>r. map (\<lambda>c. DrawImage (rowImages ! r)
                                 (real_of_int (int c * res (rowImages ! r)))
                                 (real_of_int (int r * VISIBLE_ROW_HEIGHT)))
                          [0..<nat gsBoardColumns])
                 [0..<length rowImages])"

definition renderBoard :: "resources \<Rightarrow> game \<Rightarrow> game" where
  "renderBoard res s = renderScore (s\<lparr>ctx := ctx s @ boardTiles res\<rparr>)"

definition renderEntities :: "game \<Rightarrow> game" where
  "renderEntities s =
     s\<lparr>ctx := ctx s @ map Enemy_render (allEnemies s) @ [Player_render (player s)]\<rparr>"

definition render :: "resources \<Rightarrow> game \<Rightarrow> game" where
  "render res s = renderEntities (renderBoard res s)"

definition displayStatus :: "string \<Rightarrow> string \<Rightarrow> string \<Rightarrow> game \<Rightarrow> game" where
  "displayStatus txt rectColor txtColor s =
     s\<lparr>ctx := ctx s @
        [SetFont ''Bold 48px Calibri'',
         SetTextAlign ''center'',
         SetFillStyle rectColor,
         SetStrokeStyle txtColor,
         FillRect 0 120 (real_of_int canvas_width) 140,
         StrokeRect 0 120 (real_of_int canvas_width) 140,
         SetFillStyle txtColor,
         FillText txt (real_of_int canvas_width / 2) 200]\<rparr>"

section \<open>The engine: stopping, and the status check\<close>

definition readyStart :: "resources \<Rightarrow> game \<Rightarrow> game" where
  "readyStart res s =
     setButtonDisabled buttonStop True
       (setButtonDisabled buttonReset True
          (setButtonDisabled buttonStart False
             (renderBoard res s)))"

definition stopGame :: "resources \<Rightarrow> game \<Rightarrow> game" where
  "stopGame res s =
     readyStart res
       (if truthy (requestId s)
        then (cancelAnimationFrame (requestId s) s)\<lparr>requestId := Undefined\<rparr>
        else s)"

definition gameOver :: "resources \<Rightarrow> string \<Rightarrow> game \<Rightarrow> game" where
  "gameOver res outcome s =
     (let s1 = stopGame res s
      in if outcome = ''won''
         then displayStatus ''Woo hoo! You won!'' ''#ffd738'' ''#3500a8'' s1
         else displayStatus ''Game over - you lose'' ''#000'' ''#fff'' s1)"

definition checkGameStatus :: "resources \<Rightarrow> game \<Rightarrow> game" where
  "checkGameStatus res s =
     (let s1 = (if collisionCount (player s) \<ge> gsCollisionLimit
                then gameOver res ''lost'' s else s)
      in if row (player s1) = 0 then gameOver res ''won'' s1 else s1)"

section \<open>The engine: one pass of the loop\<close>

definition updateEntities :: "resources \<Rightarrow> real \<Rightarrow> game \<Rightarrow> game" where
  "updateEntities res dt s =
     (let (es, g) = forEach (Enemy_update res dt) (allEnemies s) (rng s);
          s1 = s\<lparr>allEnemies := es, rng := g\<rparr>
      in s1\<lparr>player := Player_update res (player s1)\<rparr>)"

text \<open>
  The callback handed to \<open>Array.some\<close> calls \<open>enemy.collided()\<close> as a statement and has
  no \<open>return\<close>: it returns \<open>undefined\<close>, which \<open>some\<close> reads as false.
\<close>

definition checkCollisions :: "resources \<Rightarrow> game \<Rightarrow> game" where
  "checkCollisions res s =
     (let (found, p) =
            array_some (\<lambda>enemy p0. (let (hit, p1) = Enemy_collided res enemy p0
                                     in (False, p1)))
                       (allEnemies s) (player s)
      in s\<lparr>player := p\<rparr>)"

definition update :: "resources \<Rightarrow> real \<Rightarrow> game \<Rightarrow> game" where
  "update res dt s = checkCollisions res (updateEntities res dt s)"

definition main :: "resources \<Rightarrow> game \<Rightarrow> game" where
  "main res s =
     (let (now, c) = Date_now (clock s);
          dt = real_of_int (now - lastTime s) / 1000;
          s1 = update res dt (s\<lparr>clock := c\<rparr>);
          s2 = render res s1;
          s3 = checkGameStatus res s2;
          s4 = s3\<lparr>lastTime := now\<rparr>
      in if requestId s4 \<noteq> Undefined
         then (let (h, s5) = requestAnimationFrame s4 in s5\<lparr>requestId := Num h\<rparr>)
         else s4)"

definition init :: "resources \<Rightarrow> game \<Rightarrow> game" where
  "init res s =
     (let (t, c) = Date_now (clock s)
      in main res (s\<lparr>lastTime := t, clock := c\<rparr>))"

section \<open>The engine: starting and resetting\<close>

definition initGameSettings :: "game \<Rightarrow> game" where
  "initGameSettings s =
     (let s1 = s\<lparr>player := (player s)\<lparr>collisionCount := 0\<rparr>\<rparr>;
          s2 = s1\<lparr>requestId := Num 0\<rparr>;
          s3 = s2\<lparr>player := Player_goToHome (player s2)\<rparr>;
          (es, g) = forEach Enemy_spawn (allEnemies s3) (rng s3)
      in s3\<lparr>allEnemies := es, rng := g\<rparr>)"

definition startGame :: "resources \<Rightarrow> game \<Rightarrow> game" where
  "startGame res s =
     init res
       (initGameSettings
          (setButtonDisabled buttonStop False
             (setButtonDisabled buttonReset False
                (setButtonDisabled buttonStart True s))))"

definition resetGame :: "resources \<Rightarrow> game \<Rightarrow> game" where
  "resetGame res s = startGame res (stopGame res s)"

section \<open>Events\<close>

text \<open>
  What the host delivers to the program: a key release with its key code, a click on one
  of the three buttons (a disabled button dispatches no click), and the animation frame
  of a handle (the callback runs if it is still scheduled, and is unscheduled first).
  The callback of every handle is \<open>main\<close>, the only function ever scheduled.
\<close>

datatype event = KeyUp nat | Click button | AnimationFrame nat

definition keyup :: "nat \<Rightarrow> game \<Rightarrow> game" where
  "keyup keyCode s = s\<lparr>player := Player_handleInput (allowedKeys keyCode) (player s)\<rparr>"

fun click :: "resources \<Rightarrow> button \<Rightarrow> game \<Rightarrow> game" where
  "click res buttonStart s = startGame res s"
| "click res buttonReset s = resetGame res s"
| "click res buttonStop s = stopGame res s"

fun fire :: "resources \<Rightarrow> event \<Rightarrow> game \<Rightarrow> game" where
  "fire res (KeyUp keyCode) s = keyup keyCode s"
| "fire res (Click b) s = (if disabled s b then s else click res b s)"
| "fire res (AnimationFrame h) s =
     (if h \<in> raf_pending s then main res (s\<lparr>raf_pending := raf_pending s - {h}\<rparr>) else s)"

text \<open>
  The page is ready once the images are loaded and \<open>readyStart\<close> has run: \<open>requestId\<close>
  still has its initial value \<open>0\<close>, no frame is scheduled, only the start button is
  enabled, there are \<open>gsEnemyCount\<close> enemies, and the random source yields draws in
  \<open>[0, 1)\<close>. The fields of the player and of the enemies hold no value yet; every one of
  them is assigned by \<open>startGame\<close> before it is read, so the model lets them be anything.
\<close>

definition ready :: "game \<Rightarrow> bool" where
  "ready s \<longleftrightarrow>
     requestId s = Num 0 \<and> raf_pending s = {} \<and>
     length (allEnemies s) = gsEnemyCount \<and>
     \<not> disabled s buttonStart \<and> disabled s buttonReset \<and> disabled s buttonStop \<and>
     valid_rng (rng s)"

fun run :: "resources \<Rightarrow> event list \<Rightarrow> game \<Rightarrow> game" where
  "run res [] s = s"
| "run res (ev # evs) s = run res evs (fire res ev s)"

inductive reachable :: "resources \<Rightarrow> game \<Rightarrow> bool" for res where
  reachable_ready: "ready s \<Longrightarrow> reachable res s"
| reachable_fire: "reachable res s \<Longrightarrow> reachable res (fire res ev s)"

section \<open>Predicates and concrete inputs used by the properties\<close>

text \<open>The player stands on a cell of the board.\<close>

definition on_board :: "Player \<Rightarrow> bool" where
  "on_board p \<longleftrightarrow> 0 \<le> col p \<and> col p \<le> gsBoardColumns - 1 \<and> 0 \<le> row p \<and> row p \<le> 5"

text \<open>
  The image provider of the concrete runs: every image is 101 pixels wide, which is the
  width the canvas is laid out for (5 columns, 505 pixels).
\<close>

definition res101 :: resources where
  "res101 = (\<lambda>image. 101)"

definition player0 :: Player where
  "player0 = \<lparr>col = 0, row = 0, px = 0, py = 0, collisionCount = 0\<rparr>"

definition enemy0 :: Enemy where
  "enemy0 = \<lparr>ex = 0, ey = 0, speed = 0\<rparr>"

text \<open>A ready page, with the random draws and the clock readings of the run to come.\<close>

definition ready_page :: "real stream \<Rightarrow> int stream \<Rightarrow> game" where
  "ready_page g c =
     \<lparr>allEnemies = [enemy0, enemy0, enemy0],
      player = player0,
      requestId = Num 0, lastTime = 0, ctx = [],
      disabled = (\<lambda>b. b \<noteq> buttonStart),
      rng = g, clock = c, raf_last = 0, raf_pending = {}\<rparr>"

text \<open>Slow bugs in the first stone row, and a clock that stands still.\<close>

definition calm_rng :: "real stream" where "calm_rng = sconst 0"

definition calm_clock :: "int stream" where "calm_clock = sconst 0"

text \<open>Three bugs in a clump: the same speed, all in the third stone row.\<close>

definition clump_rng :: "real stream" where
  "clump_rng = (1/6) ## (9/10) ## (1/6) ## (9/10) ## (1/6) ## (9/10) ## sconst 0"

definition clump_clock :: "int stream" where
  "clump_clock = 0 ## 0 ## 1000 ## sconst 1000"

text \<open>One faster bug ahead of two slower ones, all in the third stone row.\<close>

definition chase_rng :: "real stream" where
  "chase_rng = (1/6) ## (9/10) ## 0 ## (9/10) ## 0 ## (9/10) ## sconst 0"

definition chase_clock :: "int stream" where
  "chase_clock = 0 ## 0 ## 1000 ## 1500 ## sconst 1500"

text \<open>A game in which the player has walked straight up into the water row.\<close>

definition water_run :: game where
  "water_run =
     run res101 [Click buttonStart, KeyUp 38, KeyUp 38, KeyUp 38, KeyUp 38, KeyUp 38]
       (ready_page calm_rng calm_clock)"


section \<open>Derived notions\<close>

text \<open>
  The operations that the rendering functions append to the context, the part of
  \<open>stopGame\<close> before \<open>readyStart\<close>, the condition under which the status check ends
  the game, and the state on which \<open>main\<close> runs the status check.
\<close>

definition scoreOps :: "game \<Rightarrow> draw_op list" where
  "scoreOps s =
     [ClearRect 0 0 (real_of_int canvas_width) 50,
      SetFont ''Bold 12pt tahoma'',
      SetTextAlign ''right'',
      SetFillStyle ''#000''] @
     (if truthy (requestId s)
      then [FillText (''Lives remaining: ''
                        @ Number_toString (gsCollisionLimit - collisionCount (player s)))
                     (real_of_int (canvas_width - 30)) 35]
      else [])"

definition entityOps :: "game \<Rightarrow> draw_op list" where
  "entityOps s = map Enemy_render (allEnemies s) @ [Player_render (player s)]"

definition bannerOps :: "string \<Rightarrow> string \<Rightarrow> string \<Rightarrow> draw_op list" where
  "bannerOps txt rectColor txtColor =
     [SetFont ''Bold 48px Calibri'',
      SetTextAlign ''center'',
      SetFillStyle rectColor,
      SetStrokeStyle txtColor,
      FillRect 0 120 (real_of_int canvas_width) 140,
      StrokeRect 0 120 (real_of_int canvas_width) 140,
      SetFillStyle txtColor,
      FillText txt (real_of_int canvas_width / 2) 200]"

definition bannerFor :: "string \<Rightarrow> draw_op list" where
  "bannerFor outcome =
     (if outcome = ''won'' then bannerOps ''Woo hoo! You won!'' ''#ffd738'' ''#3500a8''
      else bannerOps ''Game over - you lose'' ''#000'' ''#fff'')"

definition halt :: "game \<Rightarrow> game" where
  "halt s = (if truthy (requestId s)
             then (cancelAnimationFrame (requestId s) s)\<lparr>requestId := Undefined\<rparr> else s)"

definition game_over :: "game \<Rightarrow> bool" where
  "game_over s \<longleftrightarrow> collisionCount (player s) \<ge> gsCollisionLimit \<or> row (player s) = 0"

definition at_check :: "resources \<Rightarrow> game \<Rightarrow> game" where
  "at_check res s =
     render res (update res (real_of_int (shd (clock s) - lastTime s) / 1000)
                   (s\<lparr>clock := stl (clock s)\<rparr>))"

text \<open>The pixel rows of the three stone rows, where \<open>setRow\<close> puts an enemy.\<close>

definition hazard_row :: "int \<Rightarrow> bool" where
  "hazard_row y \<longleftrightarrow>
     y \<in> {1 * VISIBLE_ROW_HEIGHT - ROW_HEIGHT_OFFSET,
           2 * VISIBLE_ROW_HEIGHT - ROW_HEIGHT_OFFSET,
           3 * VISIBLE_ROW_HEIGHT - ROW_HEIGHT_OFFSET}"

text \<open>
  The invariant of the reachable states: the scheduled frames are exactly the one that
  \<open>requestId\<close> names, if it names one; while the start button can be clicked no game is
  in progress; while a game is in progress the collision limit is not reached; once a
  game has been started the player is on the board; the random draws are in \<open>[0, 1)\<close>.
\<close>

fun scheduled :: "request_id \<Rightarrow> nat set" where
  "scheduled Undefined = {}"
| "scheduled (Num h) = (if h = 0 then {} else {h})"

definition inv :: "game \<Rightarrow> bool" where
  "inv s \<longleftrightarrow>
     raf_pending s = scheduled (requestId s) \<and>
     (\<not> disabled s buttonStart \<longrightarrow> \<not> truthy (requestId s)) \<and>
     (truthy (requestId s) \<longrightarrow> collisionCount (player s) < gsCollisionLimit) \<and>
     (requestId s \<noteq> Num 0 \<longrightarrow> on_board (player s)) \<and>
     valid_rng (rng s)"

text \<open>
  The pass of the loop in the order in which the specification lists its phases: update
  the enemies, update the player's pixel position, detect collisions, evaluate the
  win and loss conditions, render, and request another pass if the game goes on. It
  differs from \<open>main\<close> in one place: the status check comes before the rendering.
\<close>

definition main_spec_order :: "resources \<Rightarrow> game \<Rightarrow> game" where
  "main_spec_order res s =
     (let (now, c) = Date_now (clock s);
          dt = real_of_int (now - lastTime s) / 1000;
          s1 = update res dt (s\<lparr>clock := c\<rparr>);
          s2 = checkGameStatus res s1;
          s3 = render res s2;
          s4 = s3\<lparr>lastTime := now\<rparr>
      in if requestId s4 \<noteq> Undefined
         then (let (h, s5) = requestAnimationFrame s4 in s5\<lparr>requestId := Num h\<rparr>)
         else s4)"

section \<open>The player on the board\<close>

lemma handleInput_on_board: "on_board (Player_handleInput k p)"
  by (simp add: Player_handleInput_def on_board_def gsBoardColumns_def Let_def)

lemma goToHome_on_board: "on_board (Player_goToHome p)"
  by (simp add: Player_goToHome_def on_board_def gsBoardColumns_def)

lemma crash_on_board: "on_board (Player_crash p)"
  by (simp add: Player_crash_def Player_goToHome_def on_board_def gsBoardColumns_def Let_def)

lemma fold_handleInput_on_board:
  "on_board p \<Longrightarrow> on_board (fold Player_handleInput ks p)"
  by (induction ks arbitrary: p) (simp_all add: handleInput_on_board)

lemma handleInput_edge:
  assumes "on_board p"
  shows "col p = 0 \<Longrightarrow> Player_handleInput (Some ''left'') p = p"
    and "col p = gsBoardColumns - 1 \<Longrightarrow> Player_handleInput (Some ''right'') p = p"
    and "row p = 0 \<Longrightarrow> Player_handleInput (Some ''up'') p = p"
    and "row p = 5 \<Longrightarrow> Player_handleInput (Some ''down'') p = p"
  using assms
  by (simp_all add: Player_handleInput_def on_board_def gsBoardColumns_def Let_def)


lemma handleInput_frame:
  "px (Player_handleInput k p) = px p"
  "py (Player_handleInput k p) = py p"
  "collisionCount (Player_handleInput k p) = collisionCount p"
  by (simp_all add: Player_handleInput_def Let_def)

text \<open>
  Claim C4. Whatever sequence of inputs \<open>handleInput\<close> receives, starting from the home
  cell, the column stays in \<open>[0, gsBoardColumns - 1]\<close> and the row in \<open>[0, 5]\<close>; at an
  edge, the input that would leave the board changes nothing.
\<close>

theorem player_stays_on_board:
  fixes keys :: "string option list" and p :: Player
  defines "q \<equiv> fold Player_handleInput keys (Player_goToHome p)"
  shows "0 \<le> col q \<and> col q \<le> gsBoardColumns - 1 \<and> 0 \<le> row q \<and> row q \<le> 5 \<and>
     (col q = 0 \<longrightarrow> Player_handleInput (Some ''left'') q = q) \<and>
     (col q = gsBoardColumns - 1 \<longrightarrow> Player_handleInput (Some ''right'') q = q) \<and>
     (row q = 0 \<longrightarrow> Player_handleInput (Some ''up'') q = q) \<and>
     (row q = 5 \<longrightarrow> Player_handleInput (Some ''down'') q = q)"
proof -
  have b: "on_board q"
    unfolding q_def by (rule fold_handleInput_on_board) (rule goToHome_on_board)
  from b have "0 \<le> col q \<and> col q \<le> gsBoardColumns - 1 \<and> 0 \<le> row q \<and> row q \<le> 5"
    by (simp add: on_board_def)
  with handleInput_edge [OF b] show ?thesis by blast
qed

theorem player_stays_on_board_witness:
  "col (fold Player_handleInput [Some ''left'', Some ''left'', Some ''left'', Some ''down'']
          (Player_goToHome player0)) = 0 \<and>
   row (fold Player_handleInput [Some ''left'', Some ''left'', Some ''left'', Some ''down'']
          (Player_goToHome player0)) = 5 \<and>
   Player_handleInput (Some ''left'')
     (fold Player_handleInput [Some ''left'', Some ''left'', Some ''left'', Some ''down'']
        (Player_goToHome player0))
   = fold Player_handleInput [Some ''left'', Some ''left'', Some ''left'', Some ''down'']
       (Player_goToHome player0) \<and>
   Player_handleInput (Some ''down'')
     (fold Player_handleInput [Some ''left'', Some ''left'', Some ''left'', Some ''down'']
        (Player_goToHome player0))
   = fold Player_handleInput [Some ''left'', Some ''left'', Some ''left'', Some ''down'']
       (Player_goToHome player0)"
proof -
  have c: "col (fold Player_handleInput [Some ''left'', Some ''left'', Some ''left'', Some ''down'']
          (Player_goToHome player0)) = 0"
    by (simp add: Player_handleInput_def Player_goToHome_def player0_def gsBoardColumns_def)
  have r: "row (fold Player_handleInput [Some ''left'', Some ''left'', Some ''left'', Some ''down'']
          (Player_goToHome player0)) = 5"
    by (simp add: Player_handleInput_def Player_goToHome_def player0_def gsBoardColumns_def)
  from c r player_stays_on_board
         [of "[Some ''left'', Some ''left'', Some ''left'', Some ''down'']" player0]
  show ?thesis by blast
qed

text \<open>
  Claim C9. An input that is none of the four direction strings (the \<open>undefined\<close> of any
  other key among them) leaves the player as it is, column and row included, when the
  player stands on the board, as it does from the first start on.
\<close>

theorem handleInput_other_key:
  assumes "keyMove \<notin> {Some ''left'', Some ''up'', Some ''right'', Some ''down''}"
    and "on_board p"
  shows "Player_handleInput keyMove p = p"
  using assms by (simp add: Player_handleInput_def on_board_def gsBoardColumns_def Let_def)

theorem handleInput_other_key_witness:
  "allowedKeys 13 \<notin> {Some ''left'', Some ''up'', Some ''right'', Some ''down''} \<and>
   on_board (Player_goToHome player0) \<and>
   Player_handleInput (allowedKeys 13) (Player_goToHome player0) = Player_goToHome player0"
proof -
  have k: "allowedKeys 13 \<notin> {Some ''left'', Some ''up'', Some ''right'', Some ''down''}"
    by (simp add: allowedKeys_def)
  have b: "on_board (Player_goToHome player0)"
    by (rule goToHome_on_board)
  from k b handleInput_other_key [OF k b] show ?thesis by blast
qed

section \<open>What the engine functions change\<close>

lemma renderScore_eq: "renderScore s = s\<lparr>ctx := ctx s @ scoreOps s\<rparr>"
  by (simp add: renderScore_def scoreOps_def Let_def)

lemma renderBoard_eq: "renderBoard res s = s\<lparr>ctx := ctx s @ boardTiles res @ scoreOps s\<rparr>"
  by (simp add: renderBoard_def renderScore_eq scoreOps_def)

lemma renderEntities_eq: "renderEntities s = s\<lparr>ctx := ctx s @ entityOps s\<rparr>"
  by (simp add: renderEntities_def entityOps_def)

lemma render_eq:
  "render res s = s\<lparr>ctx := ctx s @ boardTiles res @ scoreOps s @ entityOps s\<rparr>"
  by (simp add: render_def renderBoard_eq renderEntities_eq entityOps_def)

lemma displayStatus_eq:
  "displayStatus txt rc tc s = s\<lparr>ctx := ctx s @ bannerOps txt rc tc\<rparr>"
  by (simp add: displayStatus_def bannerOps_def)

lemma ready_buttons:
  "d(buttonStart := False, buttonReset := True, buttonStop := True) = (\<lambda>b. b \<noteq> buttonStart)"
  by (rule ext) (case_tac b; simp)

lemma readyStart_eq:
  "readyStart res s =
     s\<lparr>ctx := ctx s @ boardTiles res @ scoreOps s, disabled := (\<lambda>b. b \<noteq> buttonStart)\<rparr>"
  by (simp add: readyStart_def renderBoard_eq setButtonDisabled_def ready_buttons)

lemma stopGame_eq: "stopGame res s = readyStart res (halt s)"
  by (simp add: stopGame_def halt_def)

lemma halt_fields:
  "requestId (halt s) = (if truthy (requestId s) then Undefined else requestId s)"
  "raf_pending (halt s) = (case requestId s of Num h \<Rightarrow> if h \<noteq> 0 then raf_pending s - {h} else raf_pending s
                           | Undefined \<Rightarrow> raf_pending s)"
  "player (halt s) = player s" "allEnemies (halt s) = allEnemies s"
  "ctx (halt s) = ctx s" "disabled (halt s) = disabled s" "lastTime (halt s) = lastTime s"
  "rng (halt s) = rng s" "clock (halt s) = clock s" "raf_last (halt s) = raf_last s"
  by (cases "requestId s"; simp add: halt_def)+

lemma halt_not_truthy: "\<not> truthy (requestId (halt s))"
  by (cases "requestId s") (simp_all add: halt_def)

lemma halt_idem: "halt (halt s) = halt s"
  using halt_not_truthy [of s] by (simp add: halt_def [of "halt s"])

lemma scoreOps_halt:
  "scoreOps (halt s) = [ClearRect 0 0 (real_of_int canvas_width) 50,
      SetFont ''Bold 12pt tahoma'', SetTextAlign ''right'', SetFillStyle ''#000'']"
  using halt_not_truthy [of s] by (simp add: scoreOps_def)

lemma stopGame_twice: "stopGame res (stopGame res s) = renderBoard res (stopGame res s)"
proof -
  have nt: "\<not> truthy (requestId (readyStart res (halt s)))"
    using halt_not_truthy [of s] by (simp add: readyStart_eq)
  have "halt (readyStart res (halt s)) = readyStart res (halt s)"
    using nt by (simp add: halt_def)
  then show ?thesis
    by (simp add: stopGame_eq) (simp add: readyStart_eq renderBoard_eq)
qed

lemma gameOver_eq:
  "gameOver res outcome s =
     (halt s)\<lparr>ctx := ctx s @ boardTiles res @ scoreOps (halt s) @ bannerFor outcome,
              disabled := (\<lambda>b. b \<noteq> buttonStart)\<rparr>"
  by (simp add: gameOver_def stopGame_eq readyStart_eq displayStatus_eq halt_fields Let_def
      bannerFor_def)

lemma halt_update_ctx [simp]: "halt (s\<lparr>ctx := c\<rparr>) = (halt s)\<lparr>ctx := c\<rparr>"
  by (cases "requestId s") (simp_all add: halt_def)

lemma halt_update_disabled [simp]: "halt (s\<lparr>disabled := d\<rparr>) = (halt s)\<lparr>disabled := d\<rparr>"
  by (cases "requestId s") (simp_all add: halt_def)

lemma scoreOps_update [simp]:
  "scoreOps (s\<lparr>ctx := c\<rparr>) = scoreOps s"
  "scoreOps (s\<lparr>disabled := d\<rparr>) = scoreOps s"
  by (simp_all add: scoreOps_def)

lemma checkGameStatus_cases:
  "checkGameStatus res s =
     (if collisionCount (player s) \<ge> gsCollisionLimit
      then (if row (player s) = 0
            then gameOver res ''won'' (gameOver res ''lost'' s)
            else gameOver res ''lost'' s)
      else (if row (player s) = 0 then gameOver res ''won'' s else s))"
  by (simp add: checkGameStatus_def Let_def gameOver_eq halt_fields)

lemma checkGameStatus_idle: "\<not> game_over s \<Longrightarrow> checkGameStatus res s = s"
  by (simp add: checkGameStatus_cases game_over_def)

lemma checkGameStatus_over:
  assumes "game_over s"
  shows "requestId (checkGameStatus res s) = requestId (halt s)"
    and "raf_pending (checkGameStatus res s) = raf_pending (halt s)"
    and "disabled (checkGameStatus res s) = (\<lambda>b. b \<noteq> buttonStart)"
  using assms
  by (auto simp add: checkGameStatus_cases game_over_def gameOver_eq halt_fields halt_idem)

lemma checkGameStatus_frame:
  "player (checkGameStatus res s) = player s"
  "allEnemies (checkGameStatus res s) = allEnemies s"
  "rng (checkGameStatus res s) = rng s"
  "clock (checkGameStatus res s) = clock s"
  "lastTime (checkGameStatus res s) = lastTime s"
  "raf_last (checkGameStatus res s) = raf_last s"
  by (simp_all add: checkGameStatus_cases gameOver_eq halt_fields)

section \<open>Collision detection\<close>

lemma collided_overlaps:
  "Enemy_collided res e p = (if overlaps res e p then (True, Player_crash p) else (False, p))"
  by (simp add: Enemy_collided_def overlaps_def Let_def)

lemma overlaps_crash: "overlaps res e (Player_crash p) = overlaps res e p"
  by (simp add: overlaps_def Player_crash_def Player_goToHome_def Let_def)

lemma crash_funpow_pixel:
  "px ((Player_crash ^^ n) p) = px p \<and> py ((Player_crash ^^ n) p) = py p"
  by (induction n) (simp_all add: Player_crash_def Player_goToHome_def Let_def)

lemma overlaps_crash_funpow: "overlaps res e ((Player_crash ^^ n) p) = overlaps res e p"
  by (induction n) (simp_all add: overlaps_crash)

lemma some_callback:
  assumes cb: "cb = (\<lambda>enemy p0. (let (hit, p1) = Enemy_collided res enemy p0 in (False, p1)))"
  shows "array_some cb es p
     = (False, (Player_crash ^^ length (filter (\<lambda>e. overlaps res e p) es)) p)"
proof (induction es arbitrary: p)
  case Nil
  show ?case by simp
next
  case (Cons e es)
  have step: "array_some cb (e # es) p = array_some cb es (snd (Enemy_collided res e p))"
    by (simp add: cb split_def)
  show ?case
  proof (cases "overlaps res e p")
    case True
    then show ?thesis
      unfolding step by (simp add: collided_overlaps Cons.IH overlaps_crash funpow_swap1)
  next
    case False
    then show ?thesis
      unfolding step by (simp add: collided_overlaps Cons.IH)
  qed
qed

lemma checkCollisions_eq:
  "checkCollisions res s =
     s\<lparr>player := (Player_crash ^^ length (filter (\<lambda>e. overlaps res e (player s)) (allEnemies s)))
                    (player s)\<rparr>"
  unfolding checkCollisions_def some_callback [OF refl] by simp

lemma crash_funpow_count:
  "collisionCount ((Player_crash ^^ n) p) = collisionCount p + int n"
  by (induction n) (simp_all add: Player_crash_def Player_goToHome_def Let_def)

section \<open>One pass of the loop\<close>

lemma updateEntities_eq:
  "updateEntities res dt s =
     s\<lparr>allEnemies := fst (forEach (Enemy_update res dt) (allEnemies s) (rng s)),
       rng := snd (forEach (Enemy_update res dt) (allEnemies s) (rng s)),
       player := Player_update res (player s)\<rparr>"
  by (simp add: updateEntities_def split_def Let_def)

lemma update_eq:
  "update res dt s =
     (let es = fst (forEach (Enemy_update res dt) (allEnemies s) (rng s));
          p = Player_update res (player s)
      in s\<lparr>allEnemies := es,
            rng := snd (forEach (Enemy_update res dt) (allEnemies s) (rng s)),
            player := (Player_crash ^^ length (filter (\<lambda>e. overlaps res e p) es)) p\<rparr>)"
  by (simp add: update_def updateEntities_eq checkCollisions_eq Let_def)

lemma main_eq:
  "main res s =
     (let u = (checkGameStatus res (at_check res s))\<lparr>lastTime := shd (clock s)\<rparr>
      in if requestId u \<noteq> Undefined
         then u\<lparr>raf_last := raf_last u + 1,
                raf_pending := insert (raf_last u + 1) (raf_pending u),
                requestId := Num (raf_last u + 1)\<rparr>
         else u)"
  by (simp add: main_def at_check_def Date_now_def requestAnimationFrame_def Let_def)

lemma at_check_fields:
  "requestId (at_check res s) = requestId s"
  "raf_pending (at_check res s) = raf_pending s"
  "raf_last (at_check res s) = raf_last s"
  "disabled (at_check res s) = disabled s"
  by (simp_all add: at_check_def render_eq update_eq Let_def)

section \<open>Random draws and the rows of the enemies\<close>

lemma valid_rng_stl: "valid_rng g \<Longrightarrow> valid_rng (stl g)"
  by (auto simp add: valid_rng_def dest: stl_sset)

lemma valid_rng_shd: "valid_rng g \<Longrightarrow> 0 \<le> shd g \<and> shd g < 1"
  by (simp add: valid_rng_def shd_sset)

lemma int_below_3: "0 \<le> z \<Longrightarrow> z < 3 \<Longrightarrow> z = 0 \<or> z = 1 \<or> z = (2::int)"
  by arith

lemma setRow_hazard:
  assumes "0 \<le> shd g" "shd g < 1"
  shows "hazard_row (fst (Enemy_setRow g))"
proof -
  have r1: "0 \<le> \<lfloor>shd g * 3\<rfloor>" using assms(1) by simp
  have r2: "\<lfloor>shd g * 3\<rfloor> < 3" using assms(2) by (simp add: floor_less_iff)
  from int_below_3 [OF r1 r2] show ?thesis
    by (auto simp add: hazard_row_def Enemy_setRow_def Math_random_def Let_def)
qed


lemma spawn_eq:
  "Enemy_spawn e g =
     (e\<lparr>speed := fst (Enemy_setSpeed g), ey := fst (Enemy_setRow (stl g)), ex := 0\<rparr>,
      stl (stl g))"
  by (simp add: Enemy_spawn_def Enemy_setSpeed_def Enemy_setRow_def Math_random_def Let_def)

lemma spawn_valid:
  assumes "valid_rng g"
  shows "valid_rng (snd (Enemy_spawn e g))" and "hazard_row (ey (fst (Enemy_spawn e g)))"
  using assms valid_rng_shd [OF valid_rng_stl [OF assms]]
  by (simp_all add: spawn_eq valid_rng_stl setRow_hazard)

lemma update_valid:
  assumes "valid_rng g" "hazard_row (ey e)"
  shows "valid_rng (snd (Enemy_update res dt e g))"
    and "hazard_row (ey (fst (Enemy_update res dt e g)))"
  using assms spawn_valid [OF assms(1)]
  by (simp_all add: Enemy_update_def Let_def)

lemma forEach_Cons:
  "forEach f (a # as) s =
     (fst (f a s) # fst (forEach f as (snd (f a s))), snd (forEach f as (snd (f a s))))"
  by (simp add: split_def Let_def)

lemma forEach_spawn_valid:
  "valid_rng g \<Longrightarrow>
     valid_rng (snd (forEach Enemy_spawn es g)) \<and>
     (\<forall>e\<in>set (fst (forEach Enemy_spawn es g)). hazard_row (ey e))"
proof (induction es arbitrary: g)
  case Nil
  then show ?case by simp
next
  case (Cons e es)
  from Cons.IH [OF spawn_valid(1) [OF Cons.prems, of e]] spawn_valid(2) [OF Cons.prems, of e]
  show ?case by (simp add: forEach_Cons del: forEach.simps)
qed

lemma forEach_update_valid:
  "valid_rng g \<Longrightarrow> \<forall>e\<in>set es. hazard_row (ey e) \<Longrightarrow>
     valid_rng (snd (forEach (Enemy_update res dt) es g)) \<and>
     (\<forall>e\<in>set (fst (forEach (Enemy_update res dt) es g)). hazard_row (ey e))"
proof (induction es arbitrary: g)
  case Nil
  then show ?case by simp
next
  case (Cons e es)
  have h: "hazard_row (ey e)" and hs: "\<forall>e\<in>set es. hazard_row (ey e)"
    using Cons.prems(2) by simp_all
  from Cons.IH [OF update_valid(1) [OF Cons.prems(1) h, of res dt] hs]
       update_valid(2) [OF Cons.prems(1) h, of res dt]
  show ?case by (simp add: forEach_Cons del: forEach.simps)
qed

lemma forEach_update_rng:
  "valid_rng g \<Longrightarrow> valid_rng (snd (forEach (Enemy_update res dt) es g))"
proof (induction es arbitrary: g)
  case Nil
  then show ?case by simp
next
  case (Cons e es)
  have "valid_rng (snd (Enemy_update res dt e g))"
    using Cons.prems valid_rng_stl by (simp add: Enemy_update_def spawn_eq Let_def)
  from Cons.IH [OF this] show ?case by (simp add: forEach_Cons del: forEach.simps)
qed

lemma forEach_length: "length (fst (forEach f es g)) = length es"
  by (induction es arbitrary: g) (simp_all add: forEach_Cons del: forEach.simps(2))

lemma hazard_not_home:
  "hazard_row y \<Longrightarrow> y \<noteq> 5 * VISIBLE_ROW_HEIGHT - ROW_HEIGHT_OFFSET"
  by (auto simp add: hazard_row_def VISIBLE_ROW_HEIGHT_def ROW_HEIGHT_OFFSET_def)

lemma no_overlap_home:
  assumes "\<forall>e\<in>set es. hazard_row (ey e)" "py p = 5 * VISIBLE_ROW_HEIGHT - ROW_HEIGHT_OFFSET"
  shows "filter (\<lambda>e. overlaps res e p) es = []"
  using assms hazard_not_home by (auto simp add: overlaps_def filter_empty_conv)

section \<open>Starting a game\<close>

lemma initGameSettings_eq:
  "initGameSettings s =
     s\<lparr>player := (player s)\<lparr>collisionCount := 0, col := 2, row := 5\<rparr>,
       requestId := Num 0,
       allEnemies := fst (forEach Enemy_spawn (allEnemies s) (rng s)),
       rng := snd (forEach Enemy_spawn (allEnemies s) (rng s))\<rparr>"
  by (simp add: initGameSettings_def Player_goToHome_def split_def Let_def)

lemma init_eq:
  "init res s = main res (s\<lparr>lastTime := shd (clock s), clock := stl (clock s)\<rparr>)"
  by (simp add: init_def Date_now_def)

lemma crash_funpow_on_board:
  "on_board p \<Longrightarrow> on_board ((Player_crash ^^ n) p)"
  by (induction n) (simp_all add: crash_on_board)

lemma Player_update_frame:
  "col (Player_update res p) = col p" "row (Player_update res p) = row p"
  "collisionCount (Player_update res p) = collisionCount p"
  "on_board (Player_update res p) = on_board p"
  by (simp_all add: Player_update_def on_board_def)

lemma crash_funpow_row:
  "row ((Player_crash ^^ n) p) = (if n = 0 then row p else 5)"
  "col ((Player_crash ^^ n) p) = (if n = 0 then col p else 2)"
  by (induction n) (simp_all add: Player_crash_def Player_goToHome_def Let_def)

text \<open>The first pass of the loop, run by \<open>startGame\<close> itself.\<close>

lemma first_tick:
  assumes id0: "requestId t = Num 0"
    and home: "collisionCount (player t) = 0" "row (player t) = 5" "col (player t) = 2"
    and rows: "\<forall>e\<in>set (allEnemies t). hazard_row (ey e)"
    and rng: "valid_rng (rng t)"
  shows "requestId (main res t) = Num (raf_last t + 1)"
    and "raf_pending (main res t) = insert (raf_last t + 1) (raf_pending t)"
    and "disabled (main res t) = disabled t"
    and "collisionCount (player (main res t)) = 0"
    and "row (player (main res t)) = 5" and "col (player (main res t)) = 2"
    and "valid_rng (rng (main res t))"
proof -
  define dt where "dt = real_of_int (shd (clock t) - lastTime t) / 1000"
  define es where "es = fst (forEach (Enemy_update res dt) (allEnemies t) (rng t))"
  define p where "p = Player_update res (player t)"
  from forEach_update_valid [OF rng rows, of res dt]
  have g': "valid_rng (snd (forEach (Enemy_update res dt) (allEnemies t) (rng t)))"
    and rows': "\<forall>e\<in>set es. hazard_row (ey e)"
    by (simp_all add: es_def)
  have "py p = 5 * VISIBLE_ROW_HEIGHT - ROW_HEIGHT_OFFSET"
    using home by (simp add: p_def Player_update_def)
  from no_overlap_home [OF rows' this]
  have none: "filter (\<lambda>e. overlaps res e p) es = []" .
  have pl: "player (at_check res t) = p"
    using none by (simp add: at_check_def render_eq update_eq Let_def dt_def es_def p_def)
  have rg: "rng (at_check res t) = snd (forEach (Enemy_update res dt) (allEnemies t) (rng t))"
    by (simp add: at_check_def render_eq update_eq Let_def dt_def)
  have no: "\<not> game_over (at_check res t)"
    using home by (simp add: game_over_def pl p_def Player_update_frame gsCollisionLimit_def)
  note chk = checkGameStatus_idle [OF no]
  show "requestId (main res t) = Num (raf_last t + 1)"
    and "raf_pending (main res t) = insert (raf_last t + 1) (raf_pending t)"
    and "disabled (main res t) = disabled t"
    and "collisionCount (player (main res t)) = 0"
    and "row (player (main res t)) = 5" and "col (player (main res t)) = 2"
    and "valid_rng (rng (main res t))"
    using id0 home g'
    by (simp_all add: main_eq chk at_check_fields Let_def pl rg p_def Player_update_frame)
qed

lemma startGame_fields:
  assumes "valid_rng (rng s)"
  shows "requestId (startGame res s) = Num (raf_last s + 1)"
    and "raf_pending (startGame res s) = insert (raf_last s + 1) (raf_pending s)"
    and "disabled (startGame res s) = (\<lambda>b. b = buttonStart)"
    and "collisionCount (player (startGame res s)) = 0"
    and "row (player (startGame res s)) = 5" and "col (player (startGame res s)) = 2"
    and "valid_rng (rng (startGame res s))"
proof -
  define t where "t = (initGameSettings
          (setButtonDisabled buttonStop False
             (setButtonDisabled buttonReset False
                (setButtonDisabled buttonStart True s))))
          \<lparr>lastTime := shd (clock s), clock := stl (clock s)\<rparr>"
  have sg: "startGame res s = main res t"
    by (simp add: startGame_def init_eq t_def initGameSettings_eq setButtonDisabled_def)
  from forEach_spawn_valid [OF assms, of "allEnemies s"]
  have a: "valid_rng (rng t)" "\<forall>e\<in>set (allEnemies t). hazard_row (ey e)"
    by (simp_all add: t_def initGameSettings_eq setButtonDisabled_def)
  have b: "requestId t = Num 0" "collisionCount (player t) = 0" "row (player t) = 5"
    "col (player t) = 2"
    by (simp_all add: t_def initGameSettings_eq setButtonDisabled_def)
  have c: "raf_last t = raf_last s" "raf_pending t = raf_pending s"
    by (simp_all add: t_def initGameSettings_eq setButtonDisabled_def)
  have d: "disabled t = (\<lambda>b. b = buttonStart)"
    by (rule ext, case_tac b; simp add: t_def initGameSettings_eq setButtonDisabled_def)
  from first_tick [OF b(1) b(2) b(3) b(4) a(2) a(1), of res]
  show "requestId (startGame res s) = Num (raf_last s + 1)"
    and "raf_pending (startGame res s) = insert (raf_last s + 1) (raf_pending s)"
    and "disabled (startGame res s) = (\<lambda>b. b = buttonStart)"
    and "collisionCount (player (startGame res s)) = 0"
    and "row (player (startGame res s)) = 5" and "col (player (startGame res s)) = 2"
    and "valid_rng (rng (startGame res s))"
    by (simp_all add: sg c d)
qed

section \<open>The invariant of the reachable states\<close>

lemma at_check_on_board: "on_board (player s) \<Longrightarrow> on_board (player (at_check res s))"
  by (simp add: at_check_def render_eq update_eq Let_def crash_funpow_on_board Player_update_frame)

lemma at_check_rng: "valid_rng (rng s) \<Longrightarrow> valid_rng (rng (at_check res s))"
  by (simp add: at_check_def render_eq update_eq Let_def forEach_update_rng)

lemma inv_ready: "ready s \<Longrightarrow> inv s"
  by (simp add: ready_def inv_def)

lemma inv_keyup: "inv s \<Longrightarrow> inv (keyup k s)"
  by (simp add: inv_def keyup_def handleInput_frame handleInput_on_board)

lemma scheduled_truthy: "h \<in> scheduled r \<Longrightarrow> r = Num h \<and> h \<noteq> 0"
  by (cases r) (simp_all split: if_splits)

lemma scheduled_not_truthy: "\<not> truthy r \<Longrightarrow> scheduled r = {}"
  by (cases r) simp_all

lemma inv_stopGame:
  assumes "inv s"
  shows "inv (stopGame res s)" and "raf_pending (stopGame res s) = {}"
    and "\<not> truthy (requestId (stopGame res s))"
proof -
  have p: "raf_pending (halt s) = {}"
    using assms by (cases "requestId s") (simp_all add: halt_fields inv_def)
  have n: "\<not> truthy (requestId (halt s))" by (rule halt_not_truthy)
  show "raf_pending (stopGame res s) = {}"
    by (simp add: stopGame_eq readyStart_eq p)
  show "\<not> truthy (requestId (stopGame res s))"
    using n by (simp add: stopGame_eq readyStart_eq)
  show "inv (stopGame res s)"
    using assms n p
    by (cases "requestId s")
       (auto simp add: inv_def stopGame_eq readyStart_eq halt_fields scheduled_not_truthy)
qed

lemma inv_startGame:
  assumes "inv s" "\<not> truthy (requestId s)"
  shows "inv (startGame res s)"
proof -
  have g: "valid_rng (rng s)" using assms(1) by (simp add: inv_def)
  have p: "raf_pending s = {}"
    using assms by (simp add: inv_def scheduled_not_truthy)
  have "on_board (player (startGame res s))"
    by (simp add: on_board_def startGame_fields [OF g] gsBoardColumns_def)
  then show ?thesis
    by (simp add: inv_def startGame_fields [OF g] p gsCollisionLimit_def)
qed

lemma inv_frame:
  assumes i: "inv s" and h: "h \<in> raf_pending s"
  shows "inv (main res (s\<lparr>raf_pending := raf_pending s - {h}\<rparr>))"
proof -
  define s' where "s' = s\<lparr>raf_pending := raf_pending s - {h}\<rparr>"
  from i h have r: "requestId s = Num h" "h \<noteq> 0"
    using scheduled_truthy [of h "requestId s"] by (simp_all add: inv_def)
  with i have run: "collisionCount (player s) < gsCollisionLimit" "on_board (player s)"
    "disabled s buttonStart" "valid_rng (rng s)" "raf_pending s = {h}"
    by (auto simp add: inv_def)
  have s': "requestId s' = Num h" "raf_pending s' = {}" "disabled s' = disabled s"
    "player s' = player s" "rng s' = rng s"
    using r run by (simp_all add: s'_def)
  have ob: "on_board (player (at_check res s'))"
    using at_check_on_board [of s' res] run s' by simp
  have rg: "valid_rng (rng (at_check res s'))"
    using at_check_rng [of s' res] run s' by simp
  have st: "disabled s' buttonStart"
    using run s' by simp
  have "inv (main res s')"
  proof (cases "game_over (at_check res s')")
    case True
    have "requestId (checkGameStatus res (at_check res s')) = Undefined"
      "raf_pending (checkGameStatus res (at_check res s')) = {}"
      using r(2) s'(1,2)
      by (simp_all add: checkGameStatus_over [OF True] halt_fields at_check_fields)
    then show ?thesis
      using rg ob by (simp add: inv_def main_eq Let_def checkGameStatus_frame)
  next
    case False
    then have "collisionCount (player (at_check res s')) < gsCollisionLimit"
      by (simp add: game_over_def)
    then show ?thesis
      using s'(1,2) st ob rg
      by (simp add: inv_def main_eq Let_def checkGameStatus_idle [OF False] at_check_fields)
  qed
  then show ?thesis by (simp add: s'_def)
qed

lemma inv_fire: "inv s \<Longrightarrow> inv (fire res ev s)"
proof (cases ev)
  case (KeyUp k)
  assume "inv s"
  then show ?thesis using KeyUp by (simp add: inv_keyup)
next
  case (Click b)
  assume i: "inv s"
  show ?thesis
  proof (cases "disabled s b")
    case True
    then show ?thesis using Click i by simp
  next
    case False
    show ?thesis
    proof (cases b)
      case buttonStart
      with False i have "\<not> truthy (requestId s)" by (auto simp add: inv_def)
      from inv_startGame [OF i this] show ?thesis using Click False buttonStart by simp
    next
      case buttonReset
      from inv_startGame [OF inv_stopGame(1) [OF i] inv_stopGame(3) [OF i]]
      show ?thesis using Click False buttonReset by (simp add: resetGame_def)
    next
      case buttonStop
      from inv_stopGame(1) [OF i] show ?thesis using Click False buttonStop by simp
    qed
  qed
next
  case (AnimationFrame h)
  assume i: "inv s"
  show ?thesis
  proof (cases "h \<in> raf_pending s")
    case True
    from inv_frame [OF i True] show ?thesis using AnimationFrame True by simp
  next
    case False
    then show ?thesis using AnimationFrame i by simp
  qed
qed

lemma reachable_inv: "reachable res s \<Longrightarrow> inv s"
  by (induction rule: reachable.induct) (simp_all add: inv_ready inv_fire)

lemma reachable_run: "reachable res s \<Longrightarrow> reachable res (run res evs s)"
  by (induction evs arbitrary: s) (simp_all add: reachable_fire)

text \<open>From the first start on, the player of a reachable state stands on the board.\<close>

lemma reachable_on_board:
  "reachable res s \<Longrightarrow> requestId s \<noteq> Num 0 \<Longrightarrow> on_board (player s)"
  using reachable_inv [of res s] by (simp add: inv_def)

section \<open>Concrete runs\<close>

text \<open>The definitions to unfold when a run is evaluated.\<close>

lemmas run_eval =
  res101_def ready_page_def player0_def enemy0_def
  startGame_def init_def main_def update_def updateEntities_def checkCollisions_def
  render_def renderBoard_def renderScore_def renderEntities_def checkGameStatus_def
  gameOver_def stopGame_def readyStart_def setButtonDisabled_def initGameSettings_def
  resetGame_def displayStatus_def keyup_def allowedKeys_def
  Enemy_spawn_def Enemy_setSpeed_def Enemy_setRow_def Enemy_update_def Enemy_collided_def
  Player_crash_def Player_goToHome_def Player_update_def Player_handleInput_def
  Math_random_def Date_now_def requestAnimationFrame_def
  PLAYER_WIDTH_OFFSET_def VISIBLE_ROW_HEIGHT_def ROW_HEIGHT_OFFSET_def gsCollisionLimit_def
  gsEnemySpeedAdjustor_def gsBoardColumns_def gsEnemyCount_def

lemma ready_page_ready: "valid_rng g \<Longrightarrow> ready (ready_page g c)"
  by (simp add: ready_def ready_page_def gsEnemyCount_def)

lemma calm_rng_valid: "valid_rng calm_rng"
  by (simp add: valid_rng_def calm_rng_def)

lemma clump_rng_valid: "valid_rng clump_rng"
  by (simp add: valid_rng_def clump_rng_def)

lemma chase_rng_valid: "valid_rng chase_rng"
  by (simp add: valid_rng_def chase_rng_def)

section \<open>Enemies\<close>



section \<open>Collisions in one pass\<close>

text \<open>
  Claim C10. \<open>crash\<close> changes the column, the row and the collision counter and nothing
  else; the pixel position is left as it was, by \<open>crash\<close>, \<open>goToHome\<close> and
  \<open>handleInput\<close> alike, and is computed again from the cell only by \<open>Player.update\<close>.
  So \<open>collided\<close> after a crash tests the same overlap as before it, and
  \<open>checkCollisions\<close> crashes the player once for every enemy that overlaps the pixel
  position the player had when the check began.
\<close>

theorem crash_leaves_pixel_position:
  "Player_crash p = p\<lparr>col := 2, row := 5, collisionCount := collisionCount p + 1\<rparr> \<and>
   px (Player_crash p) = px p \<and> py (Player_crash p) = py p \<and>
   Player_update res (Player_crash p) =
     (Player_crash p)\<lparr>px := 2 * res player_sprite,
                      py := 5 * VISIBLE_ROW_HEIGHT - ROW_HEIGHT_OFFSET\<rparr> \<and>
   px (Player_goToHome p) = px p \<and> py (Player_goToHome p) = py p \<and>
   px (Player_handleInput k p) = px p \<and> py (Player_handleInput k p) = py p \<and>
   Enemy_collided res e (Player_crash p) =
     (if overlaps res e p then (True, Player_crash (Player_crash p))
      else (False, Player_crash p)) \<and>
   checkCollisions res s =
     s\<lparr>player := (Player_crash ^^
                     length (filter (\<lambda>e. overlaps res e (player s)) (allEnemies s)))
                    (player s)\<rparr>"
  by (simp add: collided_overlaps overlaps_crash checkCollisions_eq handleInput_frame)
     (simp add: Player_crash_def Player_goToHome_def Player_update_def Let_def)

text \<open>
  Claim C1, which the code does not meet. The claim: when the player overlaps two or more
  enemies of its row in one pass, the detector stops at the first and the collision
  counter goes up by exactly 1. The run: the game is started, the player moves up twice
  into the third stone row, and one second later the first animation frame finds all
  three bugs over the player. The counter goes from 0 to 3 in that one pass.
\<close>

theorem clump_counts_every_bug:
  "reachable res101
     (run res101 [Click buttonStart, KeyUp 38, KeyUp 38] (ready_page clump_rng clump_clock)) \<and>
   collisionCount (player
     (run res101 [Click buttonStart, KeyUp 38, KeyUp 38] (ready_page clump_rng clump_clock))) = 0 \<and>
   collisionCount (player
     (fire res101 (AnimationFrame 1)
        (run res101 [Click buttonStart, KeyUp 38, KeyUp 38]
           (ready_page clump_rng clump_clock)))) = 3"
proof -
  have r: "reachable res101
     (run res101 [Click buttonStart, KeyUp 38, KeyUp 38] (ready_page clump_rng clump_clock))"
    by (intro reachable_run reachable_ready ready_page_ready clump_rng_valid)
  have a: "collisionCount (player
     (run res101 [Click buttonStart, KeyUp 38, KeyUp 38] (ready_page clump_rng clump_clock))) = 0"
    by (simp add: run_eval clump_rng_def clump_clock_def)
  have b: "collisionCount (player
     (fire res101 (AnimationFrame 1)
        (run res101 [Click buttonStart, KeyUp 38, KeyUp 38]
           (ready_page clump_rng clump_clock)))) = 3"
    by (simp add: run_eval clump_rng_def clump_clock_def)
  from r a b show ?thesis by blast
qed

text \<open>
  Claim C2, which the code does not meet. The claim: the remaining lives that are drawn
  are never negative. The run: a first pass with one bug over the player takes the
  counter to 1; the player moves up again, and the next pass finds all three bugs over
  the player, takes the counter to 4 and, the game still in progress, draws the score.
\<close>

theorem lives_rendered_negative:
  "reachable res101
     (run res101 [Click buttonStart, KeyUp 38, KeyUp 38, AnimationFrame 1,
                  KeyUp 38, KeyUp 38, AnimationFrame 2] (ready_page chase_rng chase_clock)) \<and>
   FillText ''Lives remaining: -1'' 475 35 \<in> set (ctx
     (run res101 [Click buttonStart, KeyUp 38, KeyUp 38, AnimationFrame 1,
                  KeyUp 38, KeyUp 38, AnimationFrame 2] (ready_page chase_rng chase_clock)))"
proof -
  have r: "reachable res101
     (run res101 [Click buttonStart, KeyUp 38, KeyUp 38, AnimationFrame 1,
                  KeyUp 38, KeyUp 38, AnimationFrame 2] (ready_page chase_rng chase_clock))"
    by (intro reachable_run reachable_ready ready_page_ready chase_rng_valid)
  have a: "FillText ''Lives remaining: -1'' 475 35 \<in> set (ctx
     (run res101 [Click buttonStart, KeyUp 38, KeyUp 38, AnimationFrame 1,
                  KeyUp 38, KeyUp 38, AnimationFrame 2] (ready_page chase_rng chase_clock)))"
    by (simp add: run_eval chase_rng_def chase_clock_def Number_toString_def digits.simps
        canvas_width_def)
  from r a show ?thesis by blast
qed

section \<open>Movement commands and the state of the game\<close>




section \<open>The status check\<close>

lemma bannerFor_last:
  "last (bannerFor ''won'') = FillText ''Woo hoo! You won!'' (real_of_int canvas_width / 2) 200"
  "last (bannerFor ''lost'') = FillText ''Game over - you lose'' (real_of_int canvas_width / 2) 200"
  "bannerFor outcome \<noteq> []"
  by (simp_all add: bannerFor_def bannerOps_def)

lemma gameOver_ctx:
  "ctx (gameOver res outcome s) = ctx s @ boardTiles res @ scoreOps (halt s) @ bannerFor outcome"
  by (simp add: gameOver_eq)

lemma scoreOps_gameOver: "scoreOps (halt (gameOver res outcome s)) = scoreOps (halt s)"
  by (simp add: scoreOps_halt)

lemma checkGameStatus_ctx:
  "ctx (checkGameStatus res s) =
     ctx s @
     (if collisionCount (player s) \<ge> gsCollisionLimit
      then boardTiles res @ scoreOps (halt s) @ bannerFor ''lost'' else []) @
     (if row (player s) = 0
      then boardTiles res @ scoreOps (halt s) @ bannerFor ''won'' else [])"
  by (simp add: checkGameStatus_cases gameOver_ctx scoreOps_gameOver)




text \<open>
  No status check in an animation frame of a run meets both conditions: a pass that
  crashes the player leaves it in row 5, and a pass that does not starts below the
  collision limit. (The pass that \<open>startGame\<close> runs itself starts with the counter
  at 0 and the player at home, and ends so: \<open>first_tick\<close>.)
\<close>

lemma at_check_player:
  "\<exists>n. player (at_check res s) = (Player_crash ^^ n) (Player_update res (player s))"
  by (auto simp add: at_check_def render_eq update_eq Let_def)

lemma status_check_never_both:
  assumes "reachable res s" and "h \<in> raf_pending s"
  defines "t \<equiv> at_check res (s\<lparr>raf_pending := raf_pending s - {h}\<rparr>)"
  shows "\<not> (gsCollisionLimit \<le> collisionCount (player t) \<and> row (player t) = 0)"
proof -
  from reachable_inv [OF assms(1)] assms(2)
  have c: "collisionCount (player s) < gsCollisionLimit"
    using scheduled_truthy [of h "requestId s"] by (auto simp add: inv_def)
  obtain n where n: "player t = (Player_crash ^^ n) (Player_update res (player s))"
    using at_check_player [of res "s\<lparr>raf_pending := raf_pending s - {h}\<rparr>"]
    by (auto simp add: t_def)
  show ?thesis
  proof (cases "n = 0")
    case True
    with n c show ?thesis by (simp add: Player_update_frame)
  next
    case False
    with n show ?thesis by (simp add: crash_funpow_row)
  qed
qed

section \<open>Stopping\<close>

text \<open>
  Claim C7. A second \<open>stopGame\<close> right after a first leaves the state as the first left
  it (\<open>requestId\<close>, the scheduled frames, the player with its collision counter, the
  enemies, the buttons, the clock and the random source); it only draws the board once
  more. A second click on the stop button does nothing at all, the first having disabled
  the button. After a stop of a reachable state no frame is scheduled, so no animation
  frame runs \<open>main\<close> again.
\<close>

theorem stopGame_idempotent:
  "(stopGame res (stopGame res s))\<lparr>ctx := ctx (stopGame res s)\<rparr> = stopGame res s \<and>
   stopGame res (stopGame res s) = renderBoard res (stopGame res s) \<and>
   fire res (Click buttonStop) (fire res (Click buttonStop) s) = fire res (Click buttonStop) s \<and>
   \<not> truthy (requestId (stopGame res s)) \<and>
   (reachable res s \<longrightarrow>
      raf_pending (stopGame res s) = {} \<and>
      (\<forall>h. fire res (AnimationFrame h) (stopGame res s) = stopGame res s))"
proof -
  have a: "stopGame res (stopGame res s) = renderBoard res (stopGame res s)"
    by (rule stopGame_twice)
  have b: "(stopGame res (stopGame res s))\<lparr>ctx := ctx (stopGame res s)\<rparr> = stopGame res s"
    by (simp add: a renderBoard_eq)
  have c: "\<not> truthy (requestId (stopGame res s))"
    using halt_not_truthy [of s] by (simp add: stopGame_eq readyStart_eq)
  have d: "reachable res s \<longrightarrow>
      raf_pending (stopGame res s) = {} \<and>
      (\<forall>h. fire res (AnimationFrame h) (stopGame res s) = stopGame res s)"
    using inv_stopGame(2) [OF reachable_inv] by simp
  have "disabled (stopGame res s) buttonStop"
    by (simp add: stopGame_eq readyStart_eq)
  then have e: "fire res (Click buttonStop) (fire res (Click buttonStop) s)
                  = fire res (Click buttonStop) s"
    by (cases "disabled s buttonStop") simp_all
  from a b c d e show ?thesis by blast
qed

theorem stopGame_idempotent_witness:
  "reachable res101 (run res101 [Click buttonStart] (ready_page calm_rng calm_clock)) \<and>
   raf_pending (run res101 [Click buttonStart] (ready_page calm_rng calm_clock)) = {1} \<and>
   raf_pending (stopGame res101
     (run res101 [Click buttonStart] (ready_page calm_rng calm_clock))) = {} \<and>
   fire res101 (AnimationFrame 1)
     (stopGame res101 (run res101 [Click buttonStart] (ready_page calm_rng calm_clock)))
   = stopGame res101 (run res101 [Click buttonStart] (ready_page calm_rng calm_clock))"
proof -
  define S where "S = run res101 [Click buttonStart] (ready_page calm_rng calm_clock)"
  have r: "reachable res101 S"
    unfolding S_def by (intro reachable_run reachable_ready ready_page_ready calm_rng_valid)
  have v: "valid_rng (rng (ready_page calm_rng calm_clock))"
    by (simp add: ready_page_def calm_rng_valid)
  have p: "raf_pending S = {1}"
    by (simp add: S_def startGame_fields [OF v]) (simp add: ready_page_def)
  from stopGame_idempotent [of res101 S] r
  have "raf_pending (stopGame res101 S) = {} \<and>
        fire res101 (AnimationFrame 1) (stopGame res101 S) = stopGame res101 S"
    by blast
  with r p show ?thesis unfolding S_def by blast
qed

section \<open>The order of the phases of a pass\<close>

lemma main_ctx: "ctx (main res s) = ctx (checkGameStatus res (at_check res s))"
  by (simp add: main_eq Let_def)

lemma at_check_ctx:
  "ctx (at_check res s) =
     ctx s @ boardTiles res
           @ scoreOps (update res (real_of_int (shd (clock s) - lastTime s) / 1000)
                         (s\<lparr>clock := stl (clock s)\<rparr>))
           @ entityOps (update res (real_of_int (shd (clock s) - lastTime s) / 1000)
                         (s\<lparr>clock := stl (clock s)\<rparr>))"
  by (simp add: at_check_def render_eq update_eq Let_def scoreOps_def entityOps_def)

lemma at_check_player_eq:
  "player (at_check res s) =
     player (update res (real_of_int (shd (clock s) - lastTime s) / 1000)
               (s\<lparr>clock := stl (clock s)\<rparr>))"
  by (simp add: at_check_def render_eq)

lemma main_last_banner:
  assumes "game_over (at_check res s)"
  shows "last (ctx (main res s)) =
           last (bannerFor (if row (player (at_check res s)) = 0 then ''won'' else ''lost''))"
  using assms by (auto simp add: main_ctx checkGameStatus_ctx game_over_def bannerFor_last)

lemma main_idle_ctx:
  assumes "\<not> game_over (at_check res s)"
  shows "ctx (main res s) = ctx (at_check res s)"
  using assms by (simp add: main_ctx checkGameStatus_idle)

lemma main_spec_order_ctx:
  "ctx (main_spec_order res s) =
     (let t = checkGameStatus res
                (update res (real_of_int (shd (clock s) - lastTime s) / 1000)
                   (s\<lparr>clock := stl (clock s)\<rparr>))
      in ctx t @ boardTiles res @ scoreOps t @ entityOps t)"
  by (simp add: main_spec_order_def Date_now_def requestAnimationFrame_def render_eq Let_def
      scoreOps_def entityOps_def)

lemma main_spec_order_last:
  "last (ctx (main_spec_order res s)) =
     Player_render (player (update res (real_of_int (shd (clock s) - lastTime s) / 1000)
                              (s\<lparr>clock := stl (clock s)\<rparr>)))"
  by (simp add: main_spec_order_ctx Let_def entityOps_def checkGameStatus_frame)

lemma water_run_fields:
  "player water_run = \<lparr>col = 2, row = 0, px = 202, py = 390, collisionCount = 0\<rparr>"
  "allEnemies water_run = [\<lparr>ex = 0, ey = 58, speed = 100\<rparr>, \<lparr>ex = 0, ey = 58, speed = 100\<rparr>,
                           \<lparr>ex = 0, ey = 58, speed = 100\<rparr>]"
  "requestId water_run = Num 1" "raf_pending water_run = {1}"
  "lastTime water_run = 0" "clock water_run = sconst 0" "rng water_run = sconst 0"
  by (simp_all add: water_run_def run_eval calm_rng_def calm_clock_def)

lemma water_run_update:
  "player (update res101 (real_of_int (shd (clock water_run) - lastTime water_run) / 1000)
             (water_run\<lparr>raf_pending := raf_pending water_run - {1}, clock := stl (clock water_run)\<rparr>))
   = \<lparr>col = 2, row = 0, px = 202, py = - 25, collisionCount = 0\<rparr>"
  by (simp add: update_eq water_run_fields Let_def res101_def Enemy_update_def gsBoardColumns_def
      overlaps_def Player_update_def VISIBLE_ROW_HEIGHT_def ROW_HEIGHT_OFFSET_def)

text \<open>
  Claim C6 as stated fails in its last part: the status check does not come before the
  rendering. In the pass that finds the player in the water row, \<open>main\<close> draws the
  frame and then the winning banner, which is the last thing drawn; in the order the
  claim gives, the banner would be drawn first and the frame over it, the player's sprite
  last.
\<close>

theorem status_before_render_counterexample:
  "1 \<in> raf_pending water_run \<and>
   last (ctx (fire res101 (AnimationFrame 1) water_run))
     = FillText ''Woo hoo! You won!'' (real_of_int canvas_width / 2) 200 \<and>
   last (ctx (main_spec_order res101 (water_run\<lparr>raf_pending := raf_pending water_run - {1}\<rparr>)))
     = Player_render \<lparr>col = 2, row = 0, px = 202, py = - 25, collisionCount = 0\<rparr> \<and>
   fire res101 (AnimationFrame 1) water_run
     \<noteq> main_spec_order res101 (water_run\<lparr>raf_pending := raf_pending water_run - {1}\<rparr>)"
proof -
  define W where "W = water_run\<lparr>raf_pending := raf_pending water_run - {1}\<rparr>"
  have p: "1 \<in> raf_pending water_run" by (simp add: water_run_fields)
  then have f: "fire res101 (AnimationFrame 1) water_run = main res101 W"
    by (simp add: W_def)
  have u: "player (update res101 (real_of_int (shd (clock W) - lastTime W) / 1000)
                     (W\<lparr>clock := stl (clock W)\<rparr>))
           = \<lparr>col = 2, row = 0, px = 202, py = - 25, collisionCount = 0\<rparr>"
    using water_run_update by (simp add: W_def)
  have g: "game_over (at_check res101 W)" "row (player (at_check res101 W)) = 0"
    using u by (simp_all add: game_over_def at_check_player_eq)
  have a: "last (ctx (main res101 W))
     = FillText ''Woo hoo! You won!'' (real_of_int canvas_width / 2) 200"
    by (simp add: main_last_banner [OF g(1)] g(2) bannerFor_last)
  have b: "last (ctx (main_spec_order res101 W))
     = Player_render \<lparr>col = 2, row = 0, px = 202, py = - 25, collisionCount = 0\<rparr>"
    using u by (simp add: main_spec_order_last)
  from a b have "main res101 W \<noteq> main_spec_order res101 W"
    by (auto simp add: Player_render_def)
  with p a b show ?thesis unfolding f W_def by blast
qed

text \<open>
  Claim C6, amended. Every pass of \<open>main\<close> performs, in this order: (1) the time delta,
  (2) the update of all enemies with it, (3) the update of the player's pixel position,
  (4) the collision detection, (5) the rendering, (6) the status check, and, after
  storing the time, (7) the request of another frame exactly when \<open>requestId\<close> is not
  \<open>undefined\<close>. The frame drawn is that of the state after the collision detection;
  it is a prefix of what the pass draws, a banner comes after it, and without a game
  over nothing else is drawn.
\<close>

theorem main_phase_order:
  "(let now = fst (Date_now (clock s));
        dt = real_of_int (now - lastTime s) / 1000;
        s0 = s\<lparr>clock := snd (Date_now (clock s))\<rparr>;
        moved = forEach (Enemy_update res dt) (allEnemies s0) (rng s0);
        s1 = s0\<lparr>allEnemies := fst moved, rng := snd moved\<rparr>;
        s2 = s1\<lparr>player := Player_update res (player s1)\<rparr>;
        s3 = checkCollisions res s2;
        s4 = render res s3;
        s5 = checkGameStatus res s4;
        s6 = s5\<lparr>lastTime := now\<rparr>
    in main res s =
         (if requestId s6 \<noteq> Undefined
          then (snd (requestAnimationFrame s6))\<lparr>requestId := Num (fst (requestAnimationFrame s6))\<rparr>
          else s6) \<and>
       ctx s4 = ctx s @ boardTiles res @ scoreOps s3 @ entityOps s3 \<and>
       take (length (ctx s4)) (ctx (main res s)) = ctx s4 \<and>
       (game_over s4 \<longrightarrow>
          last (ctx (main res s)) =
            last (bannerFor (if row (player s3) = 0 then ''won'' else ''lost''))) \<and>
       (\<not> game_over s4 \<longrightarrow> ctx (main res s) = ctx s4))"
proof -
  define dt where "dt = real_of_int (shd (clock s) - lastTime s) / 1000"
  define s3 where "s3 = update res dt (s\<lparr>clock := stl (clock s)\<rparr>)"
  have s3: "checkCollisions res
              ((s\<lparr>clock := stl (clock s),
                  allEnemies := fst (forEach (Enemy_update res dt) (allEnemies s) (rng s)),
                  rng := snd (forEach (Enemy_update res dt) (allEnemies s) (rng s))\<rparr>)
                \<lparr>player := Player_update res (player s)\<rparr>) = s3"
    by (simp add: s3_def update_def updateEntities_eq)
  have s4: "render res s3 = at_check res s"
    by (simp add: at_check_def s3_def dt_def)
  have m: "main res s =
     (if requestId ((checkGameStatus res (at_check res s))\<lparr>lastTime := shd (clock s)\<rparr>) \<noteq> Undefined
      then (snd (requestAnimationFrame
                   ((checkGameStatus res (at_check res s))\<lparr>lastTime := shd (clock s)\<rparr>)))
             \<lparr>requestId := Num (fst (requestAnimationFrame
                   ((checkGameStatus res (at_check res s))\<lparr>lastTime := shd (clock s)\<rparr>)))\<rparr>
      else (checkGameStatus res (at_check res s))\<lparr>lastTime := shd (clock s)\<rparr>)"
    by (simp add: main_eq Let_def requestAnimationFrame_def)
  have c: "ctx (at_check res s) = ctx s @ boardTiles res @ scoreOps s3 @ entityOps s3"
    by (simp add: at_check_ctx s3_def dt_def)
  have t: "take (length (ctx (at_check res s))) (ctx (main res s)) = ctx (at_check res s)"
    by (simp add: main_ctx checkGameStatus_ctx)
  have p: "player s3 = player (at_check res s)"
    by (simp add: at_check_player_eq s3_def dt_def)
  have b: "game_over (at_check res s) \<longrightarrow>
          last (ctx (main res s)) =
            last (bannerFor (if row (player s3) = 0 then ''won'' else ''lost''))"
    using main_last_banner [of res s] by (simp add: p)
  have i: "\<not> game_over (at_check res s) \<longrightarrow> ctx (main res s) = ctx (at_check res s)"
    using main_idle_ctx [of res s] by simp
  from m c t b i show ?thesis
    by (simp add: Let_def Date_now_def at_check_def update_def updateEntities_eq s3_def dt_def)
qed

theorem main_phase_order_witness:
  "game_over (at_check res101 (water_run\<lparr>raf_pending := raf_pending water_run - {1}\<rparr>)) \<and>
   last (ctx (main res101 (water_run\<lparr>raf_pending := raf_pending water_run - {1}\<rparr>)))
     = FillText ''Woo hoo! You won!'' (real_of_int canvas_width / 2) 200"
proof -
  define W where "W = water_run\<lparr>raf_pending := raf_pending water_run - {1}\<rparr>"
  have u: "player (update res101 (real_of_int (shd (clock W) - lastTime W) / 1000)
                     (W\<lparr>clock := stl (clock W)\<rparr>))
           = \<lparr>col = 2, row = 0, px = 202, py = - 25, collisionCount = 0\<rparr>"
    using water_run_update by (simp add: W_def)
  have g: "game_over (at_check res101 W)"
    using u by (simp add: game_over_def at_check_player_eq)
  from main_phase_order [of W res101, unfolded Let_def, THEN conjunct2, THEN conjunct2,
                         THEN conjunct2, THEN conjunct1]
  have "game_over (at_check res101 W) \<longrightarrow>
          last (ctx (main res101 W)) =
            last (bannerFor (if row (player (update res101
                     (real_of_int (shd (clock W) - lastTime W) / 1000)
                     (W\<lparr>clock := stl (clock W)\<rparr>))) = 0 then ''won'' else ''lost''))"
    by (simp add: Date_now_def at_check_def update_def updateEntities_eq)
  with g have "last (ctx (main res101 W)) =
            last (bannerFor (if row (player (update res101
                     (real_of_int (shd (clock W) - lastTime W) / 1000)
                     (W\<lparr>clock := stl (clock W)\<rparr>))) = 0 then ''won'' else ''lost''))"
    by blast
  then have "last (ctx (main res101 W))
     = FillText ''Woo hoo! You won!'' (real_of_int canvas_width / 2) 200"
    using u by (simp add: bannerFor_last)
  with g show ?thesis unfolding W_def by blast
qed

end
